theory Spec2Isabelle
  imports Complex_Main "HOL-Library.Word" "HOL-Library.Signed_Division"
begin

unbundle bit_operations_syntax

section \<open>Data model\<close>

text \<open>
  The adapter \<^verbatim>\<open>rtems_yaffs.c\<close> works on the object graph of the flash engine.
  A pointer to a \<^verbatim>\<open>struct yaffs_obj\<close> is an address; the null pointer is \<open>None\<close>
  of \<open>obj_ref option\<close>. The graph is a store from addresses to objects, held in the
  device. The adapter serves one device per mount, so \<^verbatim>\<open>obj->my_dev\<close> is the device
  that is passed along.
\<close>

type_synonym obj_ref = nat

datatype yaffs_obj_type =
    YAFFS_OBJECT_TYPE_UNKNOWN
  | YAFFS_OBJECT_TYPE_FILE
  | YAFFS_OBJECT_TYPE_SYMLINK
  | YAFFS_OBJECT_TYPE_DIRECTORY
  | YAFFS_OBJECT_TYPE_HARDLINK
  | YAFFS_OBJECT_TYPE_SPECIAL

record yaffs_obj =
  obj_id :: int
  variant_type :: yaffs_obj_type
  parent :: "obj_ref option"
  obj_name :: string
  symlink_alias :: string
  children :: "obj_ref list"
  equiv_obj :: "obj_ref option"
  yst_mode :: "32 word"
  yst_rdev :: "32 word"
  yst_atime :: "32 word"
  yst_ctime :: "32 word"
  yst_mtime :: "32 word"
  dirty :: bool

text \<open>
  In an object, \<open>obj_name\<close> is the name the engine keeps for it; \<open>symlink_alias\<close>,
  \<open>children\<close> and \<open>equiv_obj\<close> are the fields of the variant union for a Symlink, a
  Directory and a Hardlink.
\<close>

record yaffs_dev =
  is_mounted :: bool
  read_only :: bool
  root_dir :: "obj_ref option"
  data_bytes_per_chunk :: int
  objs :: "obj_ref \<Rightarrow> yaffs_obj"

text \<open>
  Results. An entry point that fails stores a code in \<^verbatim>\<open>errno\<close> and returns \<open>-1\<close>:
  that is \<open>Inl\<close> of the code. \<open>Inr v\<close> is the return of \<open>v\<close>.
\<close>

datatype errno =
  ENOENT | EEXIST | EROFS | ENOSPC | EIO | EINVAL | ENOTEMPTY | ENOSYS | ENOTSUP | ENOMEM

text \<open>
  The resolver can recurse without bound through a cycle of symlinks, and it hands a
  possibly null directory to the engine's name getter; \<^verbatim>\<open>stat\<close> divides by the
  device's chunk size. These are outcomes of the model: the recursion carries fuel,
  spent at each symlink that is dereferenced, and a null dereference or a division by
  zero is a fault. A directory read whose cursor is no child of the directory any
  more follows a pointer into a list the model does not hold; it ends as
  \<open>STALE_CURSOR\<close>.
\<close>

datatype fault = OUT_OF_FUEL | NULL_DEREF | DIV_BY_ZERO | STALE_CURSOR

text \<open>
  The pair of a resolver result is the returned object pointer and the value of
  \<^verbatim>\<open>*out_of_fs\<close> after the call: \<open>None\<close> for null, else the suffix of the path it
  points at.
\<close>

type_synonym find_result = "fault + (obj_ref option \<times> string option)"

section \<open>Constants of the headers\<close>

text \<open>
  Modelled from the spec: the headers that define these are not among the sources.
  The path separator is \<^verbatim>\<open>/\<close> (the resolver itself searches for that character in
  its special case); names hold at most 255 characters.
\<close>

definition YAFFS_PATH_DIVIDERS :: string where
  "YAFFS_PATH_DIVIDERS = ''/''"

definition YAFFS_MAX_NAME_LENGTH :: nat where
  "YAFFS_MAX_NAME_LENGTH = 255"

definition NAME_MAX :: nat where
  "NAME_MAX = 255"

section \<open>Engine primitives that read the graph\<close>

text \<open>
  Modelled from the spec: \<^verbatim>\<open>yaffs_get_equivalent_obj\<close> is engine code. The spec has
  resolve-equivalent(object) give the object a Hardlink refers to, and be the identity
  on every other object.
\<close>

definition yaffs_get_equivalent_obj :: "yaffs_dev \<Rightarrow> obj_ref \<Rightarrow> obj_ref option" where
  "yaffs_get_equivalent_obj dev obj =
     (if variant_type (objs dev obj) = YAFFS_OBJECT_TYPE_HARDLINK
      then equiv_obj (objs dev obj) else Some obj)"

text \<open>
  Modelled from the spec: \<^verbatim>\<open>yaffs_get_obj_name\<close> is engine code. It copies the
  object's own stored name into a buffer of the given size, which holds one character
  less than its size before the terminator.
\<close>

definition yaffs_get_obj_name :: "yaffs_dev \<Rightarrow> obj_ref \<Rightarrow> nat \<Rightarrow> string" where
  "yaffs_get_obj_name dev obj buffer_size = take (buffer_size - 1) (obj_name (objs dev obj))"

text \<open>
  Modelled from the spec: \<^verbatim>\<open>yaffs_find_by_name\<close> is engine code. The spec has
  find-child-by-name(directory, name) give the child whose name matches exactly, or
  nothing.
\<close>

definition yaffs_find_by_name :: "yaffs_dev \<Rightarrow> obj_ref \<Rightarrow> string \<Rightarrow> obj_ref option" where
  "yaffs_find_by_name dev directory name =
     find (\<lambda>l. obj_name (objs dev l) = name) (children (objs dev directory))"

section \<open>Helper functions\<close>

fun is_path_divider_in :: "string \<Rightarrow> char \<Rightarrow> bool" where
  "is_path_divider_in [] ch = False"
| "is_path_divider_in (c # str) ch = (if c = ch then True else is_path_divider_in str ch)"

definition is_path_divider :: "char \<Rightarrow> bool" where
  "is_path_divider ch = is_path_divider_in YAFFS_PATH_DIVIDERS ch"

text \<open>
  \<^verbatim>\<open>is_path_divider(*p)\<close> for a pointer into a string: at the end of the string
  \<^verbatim>\<open>*p\<close> is the terminator, which is no divider.
\<close>

definition at_path_divider :: "string \<Rightarrow> bool" where
  "at_path_divider p = (case p of [] \<Rightarrow> False | ch # _ \<Rightarrow> is_path_divider ch)"

text \<open>The rest of a path behind a segment is shorter than the path.\<close>

lemma segment_rest_shorter:
  assumes "dropWhile (\<lambda>ch. \<not> P ch) (dropWhile P xs) \<noteq> []"
  shows "length (dropWhile (\<lambda>ch. \<not> P ch) (dropWhile P xs)) < length xs"
proof (cases xs)
  case Nil
  with assms show ?thesis by simp
next
  case (Cons x xs')
  show ?thesis
  proof (cases "P x")
    case True
    have "length (dropWhile (\<lambda>ch. \<not> P ch) (dropWhile P xs')) \<le> length (dropWhile P xs')"
      by (rule length_dropWhile_le)
    also have "\<dots> \<le> length xs'"
      by (rule length_dropWhile_le)
    finally show ?thesis using True Cons by simp
  next
    case False
    have "length (dropWhile (\<lambda>ch. \<not> P ch) xs') \<le> length xs'"
      by (rule length_dropWhile_le)
    then show ?thesis using False Cons by simp
  qed
qed

text \<open>
  The test of the special case at the head of \<^verbatim>\<open>h_find_object\<close>: the path holds no
  \<^verbatim>\<open>/\<close> and is the name of the starting directory. The directory goes to the engine's
  name getter as it comes, so a null directory is a fault there.
\<close>

definition names_starting_dir :: "yaffs_dev \<Rightarrow> obj_ref option \<Rightarrow> string \<Rightarrow> fault + bool" where
  "names_starting_dir dev dir pathname =
     (if CHR ''/'' \<in> set pathname then Inr False
      else
        (case dir of
           None \<Rightarrow> Inl NULL_DEREF
         | Some d \<Rightarrow> Inr (yaffs_get_obj_name dev d NAME_MAX = pathname)))"

text \<open>
  \<^verbatim>\<open>h_follow_link\<close> and \<^verbatim>\<open>h_find_object\<close>, each with its loop as a function of its
  own. In a turn of the path loop, \<open>p1\<close> is the path behind the separators skipped,
  \<open>str\<close> the segment collected (at most \<^verbatim>\<open>YAFFS_MAX_NAME_LENGTH\<close> characters of it are
  kept) and \<open>p2\<close> the path behind the segment. The special case returns before
  \<^verbatim>\<open>*out_of_fs\<close> is written.
\<close>

function h_follow_link :: "nat \<Rightarrow> yaffs_dev \<Rightarrow> obj_ref option \<Rightarrow> string option \<Rightarrow> find_result"
  and h_follow_link_loop :: "nat \<Rightarrow> yaffs_dev \<Rightarrow> obj_ref option \<Rightarrow> string option \<Rightarrow> find_result"
  and h_find_object :: "nat \<Rightarrow> yaffs_dev \<Rightarrow> obj_ref option \<Rightarrow> string \<Rightarrow> string option \<Rightarrow> find_result"
  and h_find_object_loop :: "nat \<Rightarrow> yaffs_dev \<Rightarrow> obj_ref option \<Rightarrow> string \<Rightarrow> string option \<Rightarrow> find_result"
where
  "h_follow_link fuel dev obj out_of_fs =
     h_follow_link_loop fuel dev
       (case obj of None \<Rightarrow> None | Some ob \<Rightarrow> yaffs_get_equivalent_obj dev ob) out_of_fs"
| "h_follow_link_loop fuel dev obj out_of_fs =
     (case obj of
        None \<Rightarrow> Inr (None, out_of_fs)
      | Some ob \<Rightarrow>
          if variant_type (objs dev ob) \<noteq> YAFFS_OBJECT_TYPE_SYMLINK then Inr (Some ob, out_of_fs)
          else
            (case fuel of
               0 \<Rightarrow> Inl OUT_OF_FUEL
             | Suc n \<Rightarrow>
                 (case h_find_object n dev
                         (if at_path_divider (symlink_alias (objs dev ob)) then None
                          else parent (objs dev ob))
                         (symlink_alias (objs dev ob)) out_of_fs of
                    Inl f \<Rightarrow> Inl f
                  | Inr (obj', out_of_fs') \<Rightarrow> h_follow_link_loop n dev obj' out_of_fs')))"
| "h_find_object fuel dev dir pathname out_of_fs =
     (case names_starting_dir dev dir pathname of
        Inl f \<Rightarrow> Inl f
      | Inr True \<Rightarrow> Inr (dir, out_of_fs)
      | Inr False \<Rightarrow>
          if \<not> is_mounted dev then Inr (None, None)
          else h_find_object_loop fuel dev
                 (case dir of None \<Rightarrow> root_dir dev | Some d \<Rightarrow> Some d) pathname None)"
| "h_find_object_loop fuel dev dir pathname out_of_fs =
     (case dir of
        None \<Rightarrow> Inr (None, out_of_fs)
      | Some d \<Rightarrow>
          (let p1 = dropWhile is_path_divider pathname;
               str = take YAFFS_MAX_NAME_LENGTH (takeWhile (\<lambda>ch. \<not> is_path_divider ch) p1);
               p2 = dropWhile (\<lambda>ch. \<not> is_path_divider ch) p1
           in if str = ''.'' then
                (if p2 = [] then Inr (Some d, out_of_fs)
                 else h_find_object_loop fuel dev (Some d) p2 out_of_fs)
              else if str = ''..'' then
                (case parent (objs dev d) of
                   Some up \<Rightarrow>
                     (if p2 = [] then Inr (Some up, out_of_fs)
                      else h_find_object_loop fuel dev (Some up) p2 out_of_fs)
                 | None \<Rightarrow> Inr (None, Some (dropWhile is_path_divider p2)))
              else if str \<noteq> [] \<and> variant_type (objs dev d) \<noteq> YAFFS_OBJECT_TYPE_DIRECTORY
              then Inr (None, out_of_fs)
              else
                (case h_follow_link fuel dev
                        (if str \<noteq> [] then yaffs_find_by_name dev d str else Some d)
                        out_of_fs of
                   Inl f \<Rightarrow> Inl f
                 | Inr (dir', out_of_fs') \<Rightarrow>
                     (if p2 = [] then Inr (dir', out_of_fs')
                      else h_find_object_loop fuel dev dir' p2 out_of_fs'))))"
  by pat_completeness auto

text \<open>
  Fuel falls at each symlink; between two symlinks the path loop runs on an ever
  shorter rest of the path, so the resolver is total for every amount of fuel.
\<close>

termination h_follow_link
  apply (relation "inv_image (less_than <*lex*> less_than)
     (\<lambda>x. case x of
         Inl (Inl (fuel, dev, obj, oofs)) \<Rightarrow> (fuel, 1)
       | Inl (Inr (fuel, dev, obj, oofs)) \<Rightarrow> (fuel, 0)
       | Inr (Inl (fuel, dev, dir, p, oofs)) \<Rightarrow> (fuel, 3 + length p)
       | Inr (Inr (fuel, dev, dir, p, oofs)) \<Rightarrow> (fuel, 2 + length p))")
   apply (auto simp: segment_rest_shorter)
  done

declare h_follow_link.simps [simp del]
declare h_follow_link_loop.simps [simp del]
declare h_find_object.simps [simp del]
declare h_find_object_loop.simps [simp del]

section \<open>RTEMS interface\<close>

text \<open>
  Modelled from the spec: the file-type bits of a mode word come from the C library's
  \<^verbatim>\<open>sys/stat.h\<close>, which is not among the sources. The spec has stat overlay the type
  bits by variant; the values are the customary ones.
\<close>

definition S_IFMT :: "32 word" where
  "S_IFMT = 0xF000"

definition S_IFDIR :: "32 word" where
  "S_IFDIR = 0x4000"

definition S_IFREG :: "32 word" where
  "S_IFREG = 0x8000"

definition S_IFLNK :: "32 word" where
  "S_IFLNK = 0xA000"

definition S_ISDIR :: "32 word \<Rightarrow> bool" where
  "S_ISDIR m = (m AND S_IFMT = S_IFDIR)"

definition S_ISREG :: "32 word \<Rightarrow> bool" where
  "S_ISREG m = (m AND S_IFMT = S_IFREG)"

text \<open>
  Modelled from the spec: the engine's status codes and the \<^verbatim>\<open>whence\<close> values of a
  seek are header constants, not among the sources.
\<close>

definition YAFFS_OK :: int where
  "YAFFS_OK = 1"

definition YAFFS_FAIL :: int where
  "YAFFS_FAIL = 0"

definition SEEK_SET :: int where
  "SEEK_SET = 0"

definition SEEK_CUR :: int where
  "SEEK_CUR = 1"

definition SEEK_END :: int where
  "SEEK_END = 2"

text \<open>
  The part of \<^verbatim>\<open>rtems_libio_t\<close> the handlers use: the node of the open file or
  directory, the 64-bit signed byte offset, and the directory cursor \<^verbatim>\<open>data1\<close>.
\<close>

record rtems_libio_t =
  node_access :: obj_ref
  offset :: "64 word"
  data1 :: "obj_ref option"

record dirent =
  d_ino :: int
  d_off :: int
  d_reclen :: "16 word"
  d_namlen :: "16 word"
  d_name :: string

record stat =
  st_ino :: int
  st_mode :: "32 word"
  st_nlink :: int
  st_uid :: int
  st_gid :: int
  st_rdev :: "32 word"
  st_size :: int
  st_blksize :: int
  st_blocks :: int
  st_atime :: "32 word"
  st_ctime :: "32 word"
  st_mtime :: "32 word"

text \<open>
  The handlers bracket their work with the host's lock and unlock callbacks, which
  change nothing of the graph and are left out.
  The engine primitives whose outcome depends on the flash are parameters of the
  handlers that call them: \<^verbatim>\<open>yaffs_create_dir\<close> and \<^verbatim>\<open>yaffs_create_file\<close>
  (parent, name, mode, uid, gid), \<^verbatim>\<open>yaffs_flush_file\<close> (object, update_time,
  data_sync), \<^verbatim>\<open>yaffs_get_obj_length\<close>, \<^verbatim>\<open>yaffs_get_obj_link_count\<close>,
  \<^verbatim>\<open>yaffs_file_rd\<close> (object, offset, n_bytes; gives the count and the bytes put in
  the buffer) and \<^verbatim>\<open>yaffs_wr_file\<close> (object, buffer, offset, n_bytes,
  write_through). An \<^verbatim>\<open>int\<close> is 32 bits wide and so is \<^verbatim>\<open>size_t\<close>, as on the
  32-bit targets of RTEMS.
\<close>

type_synonym create_prim =
  "yaffs_dev \<Rightarrow> obj_ref \<Rightarrow> string \<Rightarrow> 32 word \<Rightarrow> 32 word \<Rightarrow> 32 word \<Rightarrow> obj_ref option \<times> yaffs_dev"

type_synonym flush_prim = "yaffs_dev \<Rightarrow> obj_ref \<Rightarrow> int \<Rightarrow> int \<Rightarrow> int \<times> yaffs_dev"

type_synonym length_prim = "yaffs_dev \<Rightarrow> obj_ref \<Rightarrow> 32 word"

type_synonym link_count_prim = "yaffs_dev \<Rightarrow> obj_ref \<Rightarrow> int"

type_synonym rd_prim = "yaffs_dev \<Rightarrow> obj_ref \<Rightarrow> 64 word \<Rightarrow> 32 word \<Rightarrow> 32 word \<times> 8 word list"

type_synonym wr_prim =
  "yaffs_dev \<Rightarrow> obj_ref \<Rightarrow> 8 word list \<Rightarrow> 64 word \<Rightarrow> 32 word \<Rightarrow> int \<Rightarrow> 32 word \<times> yaffs_dev"

text \<open>
  \<^verbatim>\<open>ycb_mknod\<close>. The flag \<open>strdup_ok\<close> says whether \<^verbatim>\<open>strdup\<close> found memory. The copy
  of the path is cut at its first \<^verbatim>\<open>/\<close>.
\<close>

definition ycb_mknod ::
  "create_prim \<Rightarrow> create_prim \<Rightarrow> bool \<Rightarrow> string \<Rightarrow> 32 word \<Rightarrow> 64 word \<Rightarrow> yaffs_dev \<Rightarrow> obj_ref
    \<Rightarrow> (errno + int) \<times> yaffs_dev" where
  "ycb_mknod yaffs_create_dir yaffs_create_file strdup_ok path mode the_dev dev parent_loc =
     (if \<not> strdup_ok then (Inl ENOMEM, dev)
      else
        (let name = takeWhile (\<lambda>ch. ch \<noteq> CHR ''/'') path
         in if read_only dev then (Inl EROFS, dev)
            else if yaffs_find_by_name dev parent_loc name \<noteq> None then (Inl EEXIST, dev)
            else if S_ISDIR mode then
              (case yaffs_create_dir dev parent_loc name mode 0 0 of
                 (None, dev') \<Rightarrow> (Inl ENOSPC, dev')
               | (Some dir, dev') \<Rightarrow> (Inr 0, dev'))
            else if S_ISREG mode then
              (case yaffs_create_file dev parent_loc name mode 0 0 of
                 (None, dev') \<Rightarrow> (Inl ENOSPC, dev')
               | (Some file, dev') \<Rightarrow> (Inr 0, dev'))
            else (Inl ENOSYS, dev)))"

text \<open>
  \<^verbatim>\<open>ycb_chown\<close> stores 0 in \<^verbatim>\<open>errno\<close>, which reports no error, and returns 0. It
  touches neither the object nor the device.
\<close>

definition ycb_chown :: "yaffs_dev \<Rightarrow> obj_ref \<Rightarrow> nat \<Rightarrow> nat \<Rightarrow> (errno + int) \<times> yaffs_dev" where
  "ycb_chown dev pathloc uid gid = (Inr 0, dev)"

text \<open>
  \<^verbatim>\<open>ycb_link\<close>, the handler beside it that is not implemented either, does fail.
\<close>

definition ycb_link :: "yaffs_dev \<Rightarrow> obj_ref \<Rightarrow> obj_ref \<Rightarrow> string \<Rightarrow> (errno + int) \<times> yaffs_dev" where
  "ycb_link dev to_loc parent_loc name = (Inl ENOSYS, dev)"

text \<open>
  \<^verbatim>\<open>ycb_dir_read\<close>. The circular list of a directory's children is the list
  \<open>children\<close>: the entry after a child is its \<^verbatim>\<open>siblings.next\<close>, and after the last
  child comes the list head, where the cursor becomes null. A cursor that is no
  child of the directory any more has its \<^verbatim>\<open>siblings.next\<close> in another list, where the
  source goes on with whatever entry (or list head) it finds; the list of children
  does not say which, so the model stops there with \<open>STALE_CURSOR\<close> and invents no
  entry. The size of a \<^verbatim>\<open>struct dirent\<close> is the parameter \<open>dirent_size\<close>; it is
  positive.
\<close>

fun sibling_after :: "obj_ref list \<Rightarrow> obj_ref \<Rightarrow> fault + obj_ref option" where
  "sibling_after [] l = Inl STALE_CURSOR"
| "sibling_after [c] l = (if c = l then Inr None else Inl STALE_CURSOR)"
| "sibling_after (c # c' # cs) l = (if c = l then Inr (Some c') else sibling_after (c' # cs) l)"

fun ycb_dir_read_loop ::
  "nat \<Rightarrow> yaffs_dev \<Rightarrow> obj_ref \<Rightarrow> nat \<Rightarrow> obj_ref option \<Rightarrow> fault + (dirent list \<times> obj_ref option)" where
  "ycb_dir_read_loop dirent_size dev obj 0 cursor = Inr ([], cursor)"
| "ycb_dir_read_loop dirent_size dev obj (Suc k) cursor =
     (case cursor of
        None \<Rightarrow> Inr ([], None)
      | Some l \<Rightarrow>
          (case yaffs_get_equivalent_obj dev l of
             None \<Rightarrow> Inl NULL_DEREF
           | Some e \<Rightarrow>
               (let name = yaffs_get_obj_name dev l NAME_MAX;
                    de = \<lparr>d_ino = obj_id (objs dev e), d_off = 0,
                          d_reclen = of_nat dirent_size,
                          d_namlen = of_nat (min (length name) NAME_MAX),
                          d_name = name\<rparr>
                in case sibling_after (children (objs dev obj)) l of
                     Inl f \<Rightarrow> Inl f
                   | Inr next \<Rightarrow>
                       (case ycb_dir_read_loop dirent_size dev obj k next of
                          Inl f \<Rightarrow> Inl f
                        | Inr (des, cursor') \<Rightarrow> Inr (de # des, cursor')))))"

definition ycb_dir_read ::
  "nat \<Rightarrow> yaffs_dev \<Rightarrow> rtems_libio_t \<Rightarrow> 32 word
    \<Rightarrow> fault + (32 word \<times> dirent list \<times> rtems_libio_t)" where
  "ycb_dir_read dirent_size dev iop count =
     (let obj = node_access iop;
          maxcount = unat count div dirent_size;
          start = (if offset iop = 0
                   then (case children (objs dev obj) of [] \<Rightarrow> None | c # _ \<Rightarrow> Some c)
                   else data1 iop)
      in case ycb_dir_read_loop dirent_size dev obj maxcount start of
           Inl f \<Rightarrow> Inl f
         | Inr (des, cursor) \<Rightarrow>
             (let readlen = (of_nat (length des * dirent_size) :: 32 word)
              in Inr (readlen, des,
                      iop\<lparr>offset := offset iop + scast readlen, data1 := cursor\<rparr>)))"

text \<open>
  \<^verbatim>\<open>ycb_fstat\<close>. The fields of \<^verbatim>\<open>struct stat\<close> that hold a size are taken wide
  enough for the sum in the block count; \<^verbatim>\<open>/\<close> of C truncates towards zero. The
  timestamps keep the 32 bits of the object's.
\<close>

definition ycb_fstat :: "length_prim \<Rightarrow> link_count_prim \<Rightarrow> yaffs_dev \<Rightarrow> obj_ref \<Rightarrow> fault + stat" where
  "ycb_fstat yaffs_get_obj_length yaffs_get_obj_link_count dev loc =
     (case yaffs_get_equivalent_obj dev loc of
        None \<Rightarrow> Inl NULL_DEREF
      | Some obj \<Rightarrow>
          (let mode0 = yst_mode (objs dev obj) AND NOT S_IFMT;
               mode =
                 (if variant_type (objs dev obj) = YAFFS_OBJECT_TYPE_DIRECTORY then mode0 OR S_IFDIR
                  else if variant_type (objs dev obj) = YAFFS_OBJECT_TYPE_SYMLINK then mode0 OR S_IFLNK
                  else if variant_type (objs dev obj) = YAFFS_OBJECT_TYPE_FILE then mode0 OR S_IFREG
                  else mode0);
               sz = sint (yaffs_get_obj_length dev obj);
               blksize = data_bytes_per_chunk dev
           in if blksize = 0 then Inl DIV_BY_ZERO
              else Inr \<lparr>st_ino = obj_id (objs dev obj), st_mode = mode,
                        st_nlink = yaffs_get_obj_link_count dev obj,
                        st_uid = 0, st_gid = 0, st_rdev = yst_rdev (objs dev obj),
                        st_size = sz, st_blksize = blksize,
                        st_blocks = (sz + blksize - 1) sdiv blksize,
                        st_atime = yst_atime (objs dev obj),
                        st_ctime = yst_ctime (objs dev obj),
                        st_mtime = yst_mtime (objs dev obj)\<rparr>))"

text \<open>\<^verbatim>\<open>ycb_fchmod\<close>. \<open>0x1FF\<close> is octal 0777.\<close>

definition ycb_fchmod :: "flush_prim \<Rightarrow> yaffs_dev \<Rightarrow> obj_ref \<Rightarrow> 32 word \<Rightarrow> (errno + int) \<times> yaffs_dev" where
  "ycb_fchmod yaffs_flush_file dev loc mode =
     (if mode AND NOT 0x1FF \<noteq> 0 then (Inl EINVAL, dev)
      else if read_only dev then (Inl EROFS, dev)
      else
        (case yaffs_get_equivalent_obj dev loc of
           None \<Rightarrow> (Inl EIO, dev)
         | Some obj \<Rightarrow>
             (let dev1 = dev\<lparr>objs := (objs dev)
                           (obj := (objs dev obj)
                              \<lparr>yst_mode := (yst_mode (objs dev obj) AND NOT 0x1FF) OR mode,
                               dirty := True\<rparr>)\<rparr>
              in case yaffs_flush_file dev1 obj 0 0 of
                   (result, dev2) \<Rightarrow>
                     if result \<noteq> YAFFS_OK then (Inl EIO, dev2) else (Inr 0, dev2))))"

text \<open>
  \<^verbatim>\<open>ycb_file_read\<close>. \<open>ycb_file_read_count\<close> is the clamping of \<^verbatim>\<open>count\<close> before
  the engine is called: the comparison of the 64-bit offset with the length is signed,
  the cast of the offset to \<^verbatim>\<open>int\<close> keeps its low 32 bits, the subtraction is that
  of \<^verbatim>\<open>int\<close> (taken to wrap), and the comparison with \<^verbatim>\<open>count\<close> is unsigned.
\<close>

definition ycb_file_read_count :: "32 word \<Rightarrow> 64 word \<Rightarrow> 32 word \<Rightarrow> 32 word" where
  "ycb_file_read_count ol off count =
     (let maxread = (if sint ol \<le> sint off then 0 else ol - ucast off)
      in if maxread < count then maxread else count)"

definition ycb_file_read ::
  "length_prim \<Rightarrow> rd_prim \<Rightarrow> yaffs_dev \<Rightarrow> rtems_libio_t \<Rightarrow> 32 word \<Rightarrow> errno + (32 word \<times> 8 word list)" where
  "ycb_file_read yaffs_get_obj_length yaffs_file_rd dev iop count =
     (let obj = node_access iop;
          ol = yaffs_get_obj_length dev obj
      in case yaffs_file_rd dev obj (offset iop) (ycb_file_read_count ol (offset iop) count) of
           (nr, buffer) \<Rightarrow> if sint nr < 0 then Inl ENOSPC else Inr (nr, buffer))"

definition ycb_file_write ::
  "wr_prim \<Rightarrow> yaffs_dev \<Rightarrow> rtems_libio_t \<Rightarrow> 8 word list \<Rightarrow> 32 word \<Rightarrow> (errno + 32 word) \<times> yaffs_dev" where
  "ycb_file_write yaffs_wr_file dev iop buffer count =
     (if read_only dev then (Inl EROFS, dev)
      else
        (case yaffs_wr_file dev (node_access iop) buffer (offset iop) count 0 of
           (nw, dev') \<Rightarrow> if sint nw < 0 then (Inl ENOSPC, dev') else (Inr nw, dev')))"

text \<open>\<^verbatim>\<open>ycb_file_lseek\<close> returns the new offset, which it does not validate.\<close>

definition ycb_file_lseek ::
  "length_prim \<Rightarrow> yaffs_dev \<Rightarrow> rtems_libio_t \<Rightarrow> 64 word \<Rightarrow> int \<Rightarrow> errno + (64 word \<times> rtems_libio_t)" where
  "ycb_file_lseek yaffs_get_obj_length dev iop len whence =
     (if whence = SEEK_SET then Inr (len, iop\<lparr>offset := len\<rparr>)
      else if whence = SEEK_CUR then Inr (offset iop + len, iop\<lparr>offset := offset iop + len\<rparr>)
      else if whence = SEEK_END then
        (let off = scast (yaffs_get_obj_length dev (node_access iop)) + len
         in Inr (off, iop\<lparr>offset := off\<rparr>))
      else Inl EINVAL)"

section \<open>Well-formed graphs and an example volume\<close>

text \<open>
  What the engine keeps true of its graph: the equivalent object of a Hardlink is the
  real target, not a Hardlink again; the parent of an object is a Directory; the root
  is a Directory.
\<close>

definition wf_graph :: "yaffs_dev \<Rightarrow> bool" where
  "wf_graph dev =
     ((\<forall>ob e. variant_type (objs dev ob) = YAFFS_OBJECT_TYPE_HARDLINK
               \<and> equiv_obj (objs dev ob) = Some e
               \<longrightarrow> variant_type (objs dev e) \<noteq> YAFFS_OBJECT_TYPE_HARDLINK)
      \<and> (\<forall>ob p. parent (objs dev ob) = Some p
               \<longrightarrow> variant_type (objs dev p) = YAFFS_OBJECT_TYPE_DIRECTORY)
      \<and> (\<forall>r. root_dir dev = Some r
               \<longrightarrow> variant_type (objs dev r) = YAFFS_OBJECT_TYPE_DIRECTORY))"

definition not_hardlink :: "yaffs_dev \<Rightarrow> obj_ref option \<Rightarrow> bool" where
  "not_hardlink dev x =
     (case x of None \<Rightarrow> True
      | Some r \<Rightarrow> variant_type (objs dev r) \<noteq> YAFFS_OBJECT_TYPE_HARDLINK)"

definition settled :: "yaffs_dev \<Rightarrow> obj_ref option \<Rightarrow> bool" where
  "settled dev x =
     (case x of None \<Rightarrow> True
      | Some r \<Rightarrow> variant_type (objs dev r) \<noteq> YAFFS_OBJECT_TYPE_SYMLINK
                \<and> variant_type (objs dev r) \<noteq> YAFFS_OBJECT_TYPE_HARDLINK)"

text \<open>
  A small volume for the concrete runs: the root (address 0) holds the directory
  \<^verbatim>\<open>etc\<close> (1), the file \<^verbatim>\<open>motd\<close> (2), the symlink \<^verbatim>\<open>cfg\<close> to \<^verbatim>\<open>etc/rc\<close> (3),
  the hardlink \<^verbatim>\<open>hl\<close> to \<^verbatim>\<open>motd\<close> (5), the symlink \<^verbatim>\<open>up\<close> to \<^verbatim>\<open>/../out\<close> (6)
  and the symlink \<^verbatim>\<open>viahl\<close> to \<^verbatim>\<open>hl\<close> (7); \<^verbatim>\<open>etc\<close> holds the file \<^verbatim>\<open>rc\<close> (4).
  Every stored mode is octal 0100755.
\<close>

definition example_obj :: "int \<Rightarrow> yaffs_obj_type \<Rightarrow> string \<Rightarrow> obj_ref option \<Rightarrow> yaffs_obj" where
  "example_obj i ty nm par =
     \<lparr>obj_id = i, variant_type = ty, parent = par, obj_name = nm, symlink_alias = [],
      children = [], equiv_obj = None, yst_mode = 0x81ED, yst_rdev = 0,
      yst_atime = 10, yst_ctime = 20, yst_mtime = 30, dirty = False\<rparr>"

definition example_objs :: "obj_ref \<Rightarrow> yaffs_obj" where
  "example_objs =
     (\<lambda>_. example_obj 0 YAFFS_OBJECT_TYPE_UNKNOWN [] None)
     (0 := (example_obj 1 YAFFS_OBJECT_TYPE_DIRECTORY [] None)\<lparr>children := [1, 2, 3, 5, 6, 7]\<rparr>,
      1 := (example_obj 257 YAFFS_OBJECT_TYPE_DIRECTORY ''etc'' (Some 0))\<lparr>children := [4]\<rparr>,
      2 := example_obj 258 YAFFS_OBJECT_TYPE_FILE ''motd'' (Some 0),
      3 := (example_obj 259 YAFFS_OBJECT_TYPE_SYMLINK ''cfg'' (Some 0))
             \<lparr>symlink_alias := ''etc/rc''\<rparr>,
      4 := example_obj 260 YAFFS_OBJECT_TYPE_FILE ''rc'' (Some 1),
      5 := (example_obj 261 YAFFS_OBJECT_TYPE_HARDLINK ''hl'' (Some 0))\<lparr>equiv_obj := Some 2\<rparr>,
      6 := (example_obj 262 YAFFS_OBJECT_TYPE_SYMLINK ''up'' (Some 0))
             \<lparr>symlink_alias := ''/../out''\<rparr>,
      7 := (example_obj 263 YAFFS_OBJECT_TYPE_SYMLINK ''viahl'' (Some 0))
             \<lparr>symlink_alias := ''hl''\<rparr>)"

definition example_dev :: yaffs_dev where
  "example_dev =
     \<lparr>is_mounted = True, read_only = False, root_dir = Some 0,
      data_bytes_per_chunk = 512, objs = example_objs\<rparr>"

text \<open>
  Modelled from the spec: the engine behind the parameters is not among the sources.
  For the concrete runs this engine always succeeds. Creation (create-file and
  create-directory of the spec: parent, name, mode give an object) puts the new
  object at a given free address and appends it to the parent's children; the flush
  clears the dirty flag; the length of every object is 5 bytes and its link count 1;
  the read and the write report the count they were asked for.
\<close>

definition example_create :: "obj_ref \<Rightarrow> yaffs_obj_type \<Rightarrow> create_prim" where
  "example_create new ty dev par nm mode uid gid =
     (Some new,
      dev\<lparr>objs := (objs dev)
        (new := (example_obj (int new + 256) ty nm (Some par))\<lparr>yst_mode := mode\<rparr>,
         par := (objs dev par)\<lparr>children := children (objs dev par) @ [new]\<rparr>)\<rparr>)"

definition example_flush :: flush_prim where
  "example_flush dev ob update_time data_sync =
     (YAFFS_OK, dev\<lparr>objs := (objs dev)(ob := (objs dev ob)\<lparr>dirty := False\<rparr>)\<rparr>)"

definition example_length :: length_prim where
  "example_length dev ob = 5"

definition example_link_count :: link_count_prim where
  "example_link_count dev ob = 1"

definition example_rd :: rd_prim where
  "example_rd dev ob off n_bytes = (n_bytes, replicate (unat n_bytes) 0)"

definition failing_rd :: rd_prim where
  "failing_rd dev ob off n_bytes = (- 1, [])"

definition example_wr :: wr_prim where
  "example_wr dev ob buffer off n_bytes write_through = (n_bytes, dev)"

definition failing_wr :: wr_prim where
  "failing_wr dev ob buffer off n_bytes write_through = (- 1, dev)"

definition example_iop :: rtems_libio_t where
  "example_iop = \<lparr>node_access = 2, offset = 0, data1 = None\<rparr>"

definition example_dir_iop :: rtems_libio_t where
  "example_dir_iop = \<lparr>node_access = 0, offset = 544, data1 = Some 3\<rparr>"

section \<open>The resolver at the volume root\<close>

lemma dot_is_no_divider: "\<not> is_path_divider CHR ''.''"
  by (simp add: is_path_divider_def YAFFS_PATH_DIVIDERS_def)

lemma is_path_divider_iff: "is_path_divider ch \<longleftrightarrow> ch = CHR ''/''"
  by (auto simp: is_path_divider_def YAFFS_PATH_DIVIDERS_def)

text \<open>One turn of the path loop, with the three strings of the turn named.\<close>

lemma h_find_object_loop_step:
  assumes "dropWhile is_path_divider pathname = p1"
    and "take YAFFS_MAX_NAME_LENGTH (takeWhile (\<lambda>ch. \<not> is_path_divider ch) p1) = str"
    and "dropWhile (\<lambda>ch. \<not> is_path_divider ch) p1 = p2"
  shows "h_find_object_loop fuel dev (Some d) pathname out_of_fs =
    (if str = ''.'' then
       (if p2 = [] then Inr (Some d, out_of_fs)
        else h_find_object_loop fuel dev (Some d) p2 out_of_fs)
     else if str = ''..'' then
       (case parent (objs dev d) of
          Some up \<Rightarrow>
            (if p2 = [] then Inr (Some up, out_of_fs)
             else h_find_object_loop fuel dev (Some up) p2 out_of_fs)
        | None \<Rightarrow> Inr (None, Some (dropWhile is_path_divider p2)))
     else if str \<noteq> [] \<and> variant_type (objs dev d) \<noteq> YAFFS_OBJECT_TYPE_DIRECTORY
     then Inr (None, out_of_fs)
     else
       (case h_follow_link fuel dev
               (if str \<noteq> [] then yaffs_find_by_name dev d str else Some d)
               out_of_fs of
          Inl f \<Rightarrow> Inl f
        | Inr (dir', out_of_fs') \<Rightarrow>
            (if p2 = [] then Inr (dir', out_of_fs')
             else h_find_object_loop fuel dev dir' p2 out_of_fs')))"
  unfolding assms[symmetric]
  by (subst h_find_object_loop.simps) (simp only: Let_def option.case)

lemma dotdot_at_root_escapes:
  assumes "parent (objs dev d) = None"
    and "\<forall>ch\<in>set seps. is_path_divider ch"
    and "rest = [] \<or> is_path_divider (hd rest)"
  shows "h_find_object_loop fuel dev (Some d) (seps @ ''..'' @ rest) out_of_fs
           = Inr (None, Some (dropWhile is_path_divider rest))"
proof -
  have p1: "dropWhile is_path_divider (seps @ ''..'' @ rest) = ''..'' @ rest"
    using assms(2) by (simp add: dropWhile_append dot_is_no_divider)
  have str: "take YAFFS_MAX_NAME_LENGTH
               (takeWhile (\<lambda>ch. \<not> is_path_divider ch) (''..'' @ rest)) = ''..''"
    using assms(3) by (cases rest) (simp_all add: dot_is_no_divider YAFFS_MAX_NAME_LENGTH_def)
  have p2: "dropWhile (\<lambda>ch. \<not> is_path_divider ch) (''..'' @ rest) = rest"
    using assms(3) by (cases rest) (simp_all add: dot_is_no_divider)
  show ?thesis
    by (subst h_find_object_loop_step[OF p1 str p2]) (simp add: assms(1))
qed



text \<open>
  The same from the entry of the resolver: on a mounted volume whose root has no
  parent, an absolute path that begins with \<^verbatim>\<open>..\<close>, resolved from the root (a null
  starting directory), gives the escape signal with the rest of the path.
\<close>

theorem h_find_object_dotdot_from_root:
  assumes "is_mounted dev"
    and "root_dir dev = Some r"
    and "parent (objs dev r) = None"
    and "seps \<noteq> []"
    and "\<forall>ch\<in>set seps. is_path_divider ch"
    and "rest = [] \<or> is_path_divider (hd rest)"
  shows "h_find_object fuel dev None (seps @ ''..'' @ rest) out_of_fs
           = Inr (None, Some (dropWhile is_path_divider rest))"
proof -
  from assms(4,5) have "CHR ''/'' \<in> set seps"
    by (cases seps) (auto simp: is_path_divider_iff)
  then have "CHR ''/'' \<in> set (seps @ ''..'' @ rest)"
    by simp
  then have "h_find_object fuel dev None (seps @ ''..'' @ rest) out_of_fs
               = h_find_object_loop fuel dev (Some r) (seps @ ''..'' @ rest) None"
    using assms(1,2) by (subst h_find_object.simps) (simp add: names_starting_dir_def)
  then show ?thesis
    using dotdot_at_root_escapes[OF assms(3,5,6)] by simp
qed

theorem h_find_object_dotdot_from_root_witness:
  "h_find_object 0 example_dev None ''/../../a'' None = Inr (None, Some ''../a'')"
  using h_find_object_dotdot_from_root[of example_dev 0 "''/''" "''/../a''" 0 None]
  by (simp add: example_dev_def example_objs_def example_obj_def is_path_divider_iff)

section \<open>The resolver on a volume that is not mounted\<close>

text \<open>
  C3 (as the code has it). If the volume is not mounted when resolution starts, and the
  special case does not apply (the path holds a separator, or the starting reference
  is there and the name the engine's getter gives for it, which is its stored name cut
  to \<^verbatim>\<open>NAME_MAX - 1\<close> characters, differs from the path), then the resolver returns no
  object and no escape signal, for every amount of fuel: the lookup fails. If the
  special case applies (the path holds no separator and is that name of the starting
  reference), the resolver returns the starting reference and leaves \<^verbatim>\<open>*out_of_fs\<close>
  as it was, whether the volume is mounted or not and for every amount of fuel.
\<close>

theorem h_find_object_not_mounted:
  "(\<not> is_mounted dev
    \<and> (CHR ''/'' \<in> set pathname
        \<or> (\<exists>d. dir = Some d \<and> yaffs_get_obj_name dev d NAME_MAX \<noteq> pathname))
    \<longrightarrow> h_find_object fuel dev dir pathname out_of_fs = Inr (None, None))
   \<and> (CHR ''/'' \<notin> set pathname
      \<and> yaffs_get_obj_name dev d NAME_MAX = pathname
      \<longrightarrow> h_find_object fuel dev (Some d) pathname out_of_fs = Inr (Some d, out_of_fs))"
proof (intro conjI impI)
  assume h: "\<not> is_mounted dev
    \<and> (CHR ''/'' \<in> set pathname
        \<or> (\<exists>d. dir = Some d \<and> yaffs_get_obj_name dev d NAME_MAX \<noteq> pathname))"
  then have "names_starting_dir dev dir pathname = Inr False"
    by (auto simp: names_starting_dir_def)
  with h show "h_find_object fuel dev dir pathname out_of_fs = Inr (None, None)"
    by (subst h_find_object.simps) simp
next
  assume "CHR ''/'' \<notin> set pathname \<and> yaffs_get_obj_name dev d NAME_MAX = pathname"
  then have "names_starting_dir dev (Some d) pathname = Inr True"
    by (simp add: names_starting_dir_def)
  then show "h_find_object fuel dev (Some d) pathname out_of_fs = Inr (Some d, out_of_fs)"
    by (subst h_find_object.simps) simp
qed

theorem h_find_object_not_mounted_witness:
  "h_find_object 0 (example_dev\<lparr>is_mounted := False\<rparr>) (Some 2) ''etc/rc'' None = Inr (None, None)
   \<and> h_find_object 0 (example_dev\<lparr>is_mounted := False\<rparr>) (Some 0) ''motd'' None = Inr (None, None)
   \<and> h_find_object 0 (example_dev\<lparr>is_mounted := False\<rparr>) (Some 4) ''rc'' (Some ''x'')
       = Inr (Some 4, Some ''x'')
   \<and> h_find_object 0 example_dev (Some 1) ''etc'' None = Inr (Some 1, None)"
  using h_find_object_not_mounted[of "example_dev\<lparr>is_mounted := False\<rparr>" "''etc/rc''" "Some 2"
      0 None 0]
    h_find_object_not_mounted[of "example_dev\<lparr>is_mounted := False\<rparr>" "''motd''" "Some 0"
      0 None 0]
    h_find_object_not_mounted[of "example_dev\<lparr>is_mounted := False\<rparr>" "''rc''" "Some 4"
      0 "Some ''x''" 4]
    h_find_object_not_mounted[of example_dev "''etc''" "Some 1" 0 None 1]
  by (simp add: example_dev_def example_objs_def example_obj_def yaffs_get_obj_name_def NAME_MAX_def)

text \<open>
  C3 as stated fails: the special case comes before the test of the mounted flag. On
  the example volume marked as not mounted, resolving \<^verbatim>\<open>motd\<close> from the file of
  that name returns the file.
\<close>

theorem h_find_object_not_mounted_counterexample:
  "\<not> is_mounted (example_dev\<lparr>is_mounted := False\<rparr>)
   \<and> h_find_object 0 (example_dev\<lparr>is_mounted := False\<rparr>) (Some 2) ''motd'' None
       = Inr (Some 2, None)"
  by (simp add: h_find_object.simps names_starting_dir_def example_dev_def example_objs_def
        example_obj_def yaffs_get_obj_name_def NAME_MAX_def)

section \<open>Ownership change\<close>

text \<open>
  C4 (as the code has it). Every call of the ownership-change entry point succeeds:
  it returns 0, whatever its arguments, and leaves the device as it was. It does not
  fail with ENOSYS.
\<close>

theorem ycb_chown_succeeds: "ycb_chown dev pathloc uid gid = (Inr 0, dev)"
  by (simp add: ycb_chown_def)

text \<open>
  C4 as stated fails: the call on the file \<^verbatim>\<open>motd\<close> of the example volume returns 0,
  where \<^verbatim>\<open>ycb_link\<close>, the unimplemented handler beside it, does fail with ENOSYS.
\<close>

theorem ycb_chown_ENOSYS_counterexample:
  "fst (ycb_chown example_dev 2 0 0) = Inr 0
   \<and> fst (ycb_chown example_dev 2 0 0) \<noteq> Inl ENOSYS
   \<and> fst (ycb_link example_dev 2 0 ''l'') = Inl ENOSYS"
  by (simp add: ycb_chown_def ycb_link_def)

section \<open>The symlink follower\<close>

lemma settled_not_hardlink: "settled dev x \<Longrightarrow> not_hardlink dev x"
  by (simp add: settled_def not_hardlink_def split: option.splits)

lemma wf_equiv: "wf_graph dev \<Longrightarrow> not_hardlink dev (yaffs_get_equivalent_obj dev ob)"
  by (auto simp: wf_graph_def not_hardlink_def yaffs_get_equivalent_obj_def split: option.splits)

lemma wf_parent: "wf_graph dev \<Longrightarrow> not_hardlink dev (parent (objs dev ob))"
  by (auto simp: wf_graph_def not_hardlink_def split: option.splits)

lemma wf_root: "wf_graph dev \<Longrightarrow> not_hardlink dev (root_dir dev)"
  by (auto simp: wf_graph_def not_hardlink_def split: option.splits)

lemma resolver_settles:
  "wf_graph dev \<longrightarrow>
     (\<forall>x o'. h_follow_link fuel dev obj oofs = Inr (x, o') \<longrightarrow> settled dev x)"
  "wf_graph dev1 \<longrightarrow> not_hardlink dev1 obj1 \<longrightarrow>
     (\<forall>x o'. h_follow_link_loop fuel1 dev1 obj1 oofs1 = Inr (x, o') \<longrightarrow> settled dev1 x)"
  "wf_graph dev2 \<longrightarrow> not_hardlink dev2 dir2 \<longrightarrow>
     (\<forall>x o'. h_find_object fuel2 dev2 dir2 path2 oofs2 = Inr (x, o') \<longrightarrow> not_hardlink dev2 x)"
  "wf_graph dev3 \<longrightarrow> not_hardlink dev3 dir3 \<longrightarrow>
     (\<forall>x o'. h_find_object_loop fuel3 dev3 dir3 path3 oofs3 = Inr (x, o') \<longrightarrow> not_hardlink dev3 x)"
proof (induction fuel dev obj oofs and fuel1 dev1 obj1 oofs1 and fuel2 dev2 dir2 path2 oofs2
         and fuel3 dev3 dir3 path3 oofs3
       rule: h_follow_link_h_follow_link_loop_h_find_object_h_find_object_loop.induct)
  case (1 fuel dev obj out_of_fs)
  show ?case
  proof (intro impI allI)
    fix x o'
    assume wf: "wf_graph dev"
      and res: "h_follow_link fuel dev obj out_of_fs = Inr (x, o')"
    have "not_hardlink dev (case obj of None \<Rightarrow> None | Some ob \<Rightarrow> yaffs_get_equivalent_obj dev ob)"
      using wf by (cases obj) (simp_all add: wf_equiv, simp add: not_hardlink_def)
    with 1 wf res show "settled dev x"
      by (simp add: h_follow_link.simps)
  qed
next
  case (2 fuel dev obj out_of_fs)
  show ?case
  proof (intro impI allI)
    fix x o'
    assume wf: "wf_graph dev" and nh: "not_hardlink dev obj"
      and res: "h_follow_link_loop fuel dev obj out_of_fs = Inr (x, o')"
    show "settled dev x"
    proof (cases obj)
      case None
      with res show ?thesis by (simp add: h_follow_link_loop.simps settled_def)
    next
      case (Some ob)
      show ?thesis
      proof (cases "variant_type (objs dev ob) = YAFFS_OBJECT_TYPE_SYMLINK")
        case False
        with res Some nh show ?thesis
          by (auto simp: h_follow_link_loop.simps settled_def not_hardlink_def)
      next
        case True
        from res Some True obtain n where fuel: "fuel = Suc n"
          by (cases fuel) (simp_all add: h_follow_link_loop.simps)
        let ?start = "if at_path_divider (symlink_alias (objs dev ob)) then None
                      else parent (objs dev ob)"
        from res Some True fuel obtain obj' oofs' where
          inner: "h_find_object n dev ?start (symlink_alias (objs dev ob)) out_of_fs = Inr (obj', oofs')"
          and outer: "h_follow_link_loop n dev obj' oofs' = Inr (x, o')"
          by (simp add: h_follow_link_loop.simps split: sum.splits prod.splits)
        have "not_hardlink dev ?start"
          using wf by (simp add: wf_parent, simp add: not_hardlink_def)
        with 2(1)[OF Some _ fuel] True wf inner have "not_hardlink dev obj'"
          by simp
        with 2(2)[OF Some _ fuel inner refl] True wf outer show ?thesis
          by simp
      qed
    qed
  qed
next
  case (3 fuel dev dir pathname out_of_fs)
  show ?case
  proof (intro impI allI)
    fix x o'
    assume wf: "wf_graph dev" and nh: "not_hardlink dev dir"
      and res: "h_find_object fuel dev dir pathname out_of_fs = Inr (x, o')"
    have nh': "not_hardlink dev (case dir of None \<Rightarrow> root_dir dev | Some d \<Rightarrow> Some d)"
      using wf nh by (cases dir) (simp_all add: wf_root)
    from res consider
        (special) "x = dir"
      | (unmounted) "x = None"
      | (loop) "names_starting_dir dev dir pathname = Inr False" "\<not> \<not> is_mounted dev"
          "h_find_object_loop fuel dev (case dir of None \<Rightarrow> root_dir dev | Some d \<Rightarrow> Some d)
             pathname None = Inr (x, o')"
      by (auto simp: h_find_object.simps split: sum.splits bool.splits if_splits)
    then show "not_hardlink dev x"
    proof cases
      case special
      with nh show ?thesis by simp
    next
      case unmounted
      then show ?thesis by (simp add: not_hardlink_def)
    next
      case loop
      with 3 wf nh' show ?thesis by blast
    qed
  qed
next
  case (4 fuel dev dir pathname out_of_fs)
  show ?case
  proof (intro impI allI)
    fix x o'
    assume wf: "wf_graph dev" and nh: "not_hardlink dev dir"
      and res: "h_find_object_loop fuel dev dir pathname out_of_fs = Inr (x, o')"
    show "not_hardlink dev x"
    proof (cases dir)
      case None
      with res show ?thesis by (simp add: h_find_object_loop.simps not_hardlink_def)
    next
      case (Some d)
      define p1 where "p1 = dropWhile is_path_divider pathname"
      define str where "str = take YAFFS_MAX_NAME_LENGTH (takeWhile (\<lambda>ch. \<not> is_path_divider ch) p1)"
      define p2 where "p2 = dropWhile (\<lambda>ch. \<not> is_path_divider ch) p1"
      note step = h_find_object_loop_step[OF p1_def[symmetric] str_def[symmetric] p2_def[symmetric],
          of fuel dev d out_of_fs]
      note ih = 4[OF Some p1_def str_def p2_def]
      consider (dot) "str = ''.''" | (dotdot) "str \<noteq> ''.''" "str = ''..''"
        | (notdir) "str \<noteq> ''.''" "str \<noteq> ''..''"
            "str \<noteq> [] \<and> variant_type (objs dev d) \<noteq> YAFFS_OBJECT_TYPE_DIRECTORY"
        | (name) "str \<noteq> ''.''" "str \<noteq> ''..''"
            "\<not> (str \<noteq> [] \<and> variant_type (objs dev d) \<noteq> YAFFS_OBJECT_TYPE_DIRECTORY)"
        by blast
      then show ?thesis
      proof cases
        case dot
        show ?thesis
        proof (cases "p2 = []")
          case True
          with res Some dot step nh show ?thesis by simp
        next
          case False
          with res Some dot step have "h_find_object_loop fuel dev (Some d) p2 out_of_fs = Inr (x, o')"
            by simp
          with ih(1)[OF dot False] wf nh Some show ?thesis by simp
        qed
      next
        case dotdot
        show ?thesis
        proof (cases "parent (objs dev d)")
          case None
          with res Some dotdot step show ?thesis by (simp add: not_hardlink_def)
        next
          case up: (Some up)
          have nhu: "not_hardlink dev (Some up)"
            using wf_parent[OF wf, of d] up by simp
          show ?thesis
          proof (cases "p2 = []")
            case True
            with res Some dotdot step up nhu show ?thesis by simp
          next
            case False
            with res Some dotdot step up
            have "h_find_object_loop fuel dev (Some up) p2 out_of_fs = Inr (x, o')"
              by simp
            with ih(2)[OF dotdot up False] wf nhu show ?thesis by simp
          qed
        qed
      next
        case notdir
        with res Some step show ?thesis by (simp add: not_hardlink_def)
      next
        case name
        let ?next = "if str \<noteq> [] then yaffs_find_by_name dev d str else Some d"
        from res Some name step obtain dir' oofs' where
          fl: "h_follow_link fuel dev ?next out_of_fs = Inr (dir', oofs')"
          and rest: "(if p2 = [] then Inr (dir', oofs')
                      else h_find_object_loop fuel dev dir' p2 oofs') = Inr (x, o')"
          by (simp split: sum.splits prod.splits)
        from ih(3)[OF name] wf fl have "settled dev dir'" by simp
        then have nhd: "not_hardlink dev dir'" by (rule settled_not_hardlink)
        show ?thesis
        proof (cases "p2 = []")
          case True
          with rest nhd show ?thesis by simp
        next
          case False
          with rest have "h_find_object_loop fuel dev dir' p2 oofs' = Inr (x, o')" by simp
          with ih(4)[OF name fl refl False] wf nhd show ?thesis by simp
        qed
      qed
    qed
  qed
qed

text \<open>
  C5. On a well-formed graph, whatever node the symlink follower is given and whatever
  fuel it has, an object it returns is not a Symlink (the loop is left only at a node
  that is no Symlink, or at null) and is not a Hardlink; hardlink indirection applied
  to the returned object gives that object again.
\<close>

theorem h_follow_link_returns_real_object:
  assumes "wf_graph dev"
    and "h_follow_link fuel dev obj out_of_fs = Inr (Some r, out_of_fs')"
  shows "variant_type (objs dev r) \<noteq> YAFFS_OBJECT_TYPE_SYMLINK
         \<and> variant_type (objs dev r) \<noteq> YAFFS_OBJECT_TYPE_HARDLINK
         \<and> yaffs_get_equivalent_obj dev r = Some r"
proof -
  from resolver_settles(1)[of dev fuel obj out_of_fs] assms
  have "settled dev (Some r)" by blast
  then show ?thesis
    by (simp add: settled_def yaffs_get_equivalent_obj_def)
qed

lemma example_dev_wf: "wf_graph example_dev"
  by (simp add: wf_graph_def example_dev_def example_objs_def example_obj_def)

theorem h_follow_link_returns_real_object_witness:
  "wf_graph example_dev
   \<and> h_follow_link 1 example_dev (Some 7) None = Inr (Some 2, None)
   \<and> variant_type (objs example_dev 2) = YAFFS_OBJECT_TYPE_FILE
   \<and> yaffs_get_equivalent_obj example_dev 2 = Some 2"
proof -
  have run: "h_follow_link 1 example_dev (Some 7) None = Inr (Some 2, None)"
    by code_simp
  from h_follow_link_returns_real_object[OF example_dev_wf run] example_dev_wf run
  show ?thesis
    by (simp add: example_dev_def example_objs_def example_obj_def)
qed

text \<open>
  The follower returns, whatever the fuel, when hardlink indirection leads to no
  Symlink: it gives the equivalent object and leaves \<^verbatim>\<open>*out_of_fs\<close> alone.
\<close>

theorem h_follow_link_no_symlink:
  assumes "yaffs_get_equivalent_obj dev ob = Some e"
    and "variant_type (objs dev e) \<noteq> YAFFS_OBJECT_TYPE_SYMLINK"
  shows "h_follow_link fuel dev (Some ob) out_of_fs = Inr (Some e, out_of_fs)"
  using assms by (simp add: h_follow_link.simps h_follow_link_loop.simps)

theorem h_follow_link_no_symlink_witness:
  "h_follow_link 0 example_dev (Some 5) None = Inr (Some 2, None)"
  using h_follow_link_no_symlink[of example_dev 5 2 0 None]
  by (simp add: example_dev_def example_objs_def example_obj_def yaffs_get_equivalent_obj_def)

section \<open>Creating a node\<close>

text \<open>
  C2 (as the code has it). A create call whose leaf name holds a separator is not
  rejected for it: the name is cut at its first separator, and the call does exactly
  what the call with the cut name does, with the same result and the same device
  afterwards, whatever the engine. On a writable volume where no entry has the cut
  name, a directory mode or a regular-file mode makes the call succeed with the
  device the engine's creation of the cut name leaves. Only that one leaf is created.
\<close>

theorem ycb_mknod_cuts_name:
  "ycb_mknod create_dir create_file strdup_ok path mode the_dev dev parent_loc
     = ycb_mknod create_dir create_file strdup_ok
         (takeWhile (\<lambda>ch. ch \<noteq> CHR ''/'') path) mode the_dev dev parent_loc
   \<and> (strdup_ok \<and> \<not> read_only dev
        \<and> yaffs_find_by_name dev parent_loc (takeWhile (\<lambda>ch. ch \<noteq> CHR ''/'') path) = None
        \<and> S_ISDIR mode
        \<and> create_dir dev parent_loc (takeWhile (\<lambda>ch. ch \<noteq> CHR ''/'') path) mode 0 0
            = (Some new, dev')
       \<longrightarrow> ycb_mknod create_dir create_file strdup_ok path mode the_dev dev parent_loc
            = (Inr 0, dev'))
   \<and> (strdup_ok \<and> \<not> read_only dev
        \<and> yaffs_find_by_name dev parent_loc (takeWhile (\<lambda>ch. ch \<noteq> CHR ''/'') path) = None
        \<and> S_ISREG mode
        \<and> create_file dev parent_loc (takeWhile (\<lambda>ch. ch \<noteq> CHR ''/'') path) mode 0 0
            = (Some new, dev')
       \<longrightarrow> ycb_mknod create_dir create_file strdup_ok path mode the_dev dev parent_loc
            = (Inr 0, dev'))"
proof (intro conjI impI)
  show "ycb_mknod create_dir create_file strdup_ok path mode the_dev dev parent_loc
     = ycb_mknod create_dir create_file strdup_ok
         (takeWhile (\<lambda>ch. ch \<noteq> CHR ''/'') path) mode the_dev dev parent_loc"
    by (simp add: ycb_mknod_def)
next
  assume "strdup_ok \<and> \<not> read_only dev
        \<and> yaffs_find_by_name dev parent_loc (takeWhile (\<lambda>ch. ch \<noteq> CHR ''/'') path) = None
        \<and> S_ISDIR mode
        \<and> create_dir dev parent_loc (takeWhile (\<lambda>ch. ch \<noteq> CHR ''/'') path) mode 0 0
            = (Some new, dev')"
  then show "ycb_mknod create_dir create_file strdup_ok path mode the_dev dev parent_loc
            = (Inr 0, dev')"
    by (simp add: ycb_mknod_def)
next
  assume h: "strdup_ok \<and> \<not> read_only dev
        \<and> yaffs_find_by_name dev parent_loc (takeWhile (\<lambda>ch. ch \<noteq> CHR ''/'') path) = None
        \<and> S_ISREG mode
        \<and> create_file dev parent_loc (takeWhile (\<lambda>ch. ch \<noteq> CHR ''/'') path) mode 0 0
            = (Some new, dev')"
  then have "\<not> S_ISDIR mode"
    by (auto simp: S_ISDIR_def S_ISREG_def S_IFDIR_def S_IFREG_def)
  with h show "ycb_mknod create_dir create_file strdup_ok path mode the_dev dev parent_loc
            = (Inr 0, dev')"
    by (simp add: ycb_mknod_def)
qed

theorem ycb_mknod_cuts_name_witness:
  "\<exists>dev'. ycb_mknod (example_create 8 YAFFS_OBJECT_TYPE_DIRECTORY)
             (example_create 8 YAFFS_OBJECT_TYPE_FILE) True ''docs/'' 0x41ED 0 example_dev 0
           = (Inr 0, dev')
      \<and> yaffs_find_by_name dev' 0 ''docs'' = Some 8
      \<and> variant_type (objs dev' 8) = YAFFS_OBJECT_TYPE_DIRECTORY"
proof -
  define dev' where "dev' = snd (example_create 8 YAFFS_OBJECT_TYPE_DIRECTORY example_dev 0
                                   ''docs'' 0x41ED 0 0)"
  have made: "example_create 8 YAFFS_OBJECT_TYPE_DIRECTORY example_dev 0 ''docs'' 0x41ED 0 0
                = (Some 8, dev')"
    by (simp add: dev'_def example_create_def)
  have fresh: "yaffs_find_by_name example_dev 0 ''docs'' = None"
    by (simp add: yaffs_find_by_name_def example_dev_def example_objs_def example_obj_def)
  have isdir: "S_ISDIR 0x41ED"
    by (simp add: S_ISDIR_def S_IFMT_def S_IFDIR_def)
  have writable: "\<not> read_only example_dev"
    by (simp add: example_dev_def)
  have cut: "takeWhile (\<lambda>ch. ch \<noteq> CHR ''/'') ''docs/'' = ''docs''"
    by simp
  have "ycb_mknod (example_create 8 YAFFS_OBJECT_TYPE_DIRECTORY)
             (example_create 8 YAFFS_OBJECT_TYPE_FILE) True ''docs/'' 0x41ED 0 example_dev 0
           = (Inr 0, dev')"
    using ycb_mknod_cuts_name[of "example_create 8 YAFFS_OBJECT_TYPE_DIRECTORY"
        "example_create 8 YAFFS_OBJECT_TYPE_FILE" True "''docs/''" "0x41ED" 0 example_dev 0 8 dev',
        unfolded cut]
      made fresh isdir writable
    by blast
  moreover have "yaffs_find_by_name dev' 0 ''docs'' = Some 8
      \<and> variant_type (objs dev' 8) = YAFFS_OBJECT_TYPE_DIRECTORY"
    by (simp add: dev'_def example_create_def yaffs_find_by_name_def example_dev_def
          example_objs_def example_obj_def)
  ultimately show ?thesis
    by blast
qed

text \<open>
  C2 as stated fails: on the example volume the call for the regular file
  \<^verbatim>\<open>new/x\<close> (mode octal 0100644) in the root succeeds and creates the file \<^verbatim>\<open>new\<close>.
\<close>

theorem ycb_mknod_separator_counterexample:
  "CHR ''/'' \<in> set ''new/x''
   \<and> yaffs_find_by_name example_dev 0 ''new'' = None
   \<and> (case ycb_mknod (example_create 8 YAFFS_OBJECT_TYPE_DIRECTORY)
               (example_create 8 YAFFS_OBJECT_TYPE_FILE) True ''new/x'' 0x81A4 0 example_dev 0 of
         (r, dev') \<Rightarrow> r = Inr 0 \<and> yaffs_find_by_name dev' 0 ''new'' = Some 8
            \<and> variant_type (objs dev' 8) = YAFFS_OBJECT_TYPE_FILE
            \<and> obj_name (objs dev' 8) = ''new'')"
  by (simp add: ycb_mknod_def example_create_def example_dev_def example_objs_def example_obj_def
        yaffs_find_by_name_def S_ISDIR_def S_ISREG_def S_IFMT_def S_IFDIR_def S_IFREG_def)

section \<open>Changing the mode\<close>

lemma within_mask:
  fixes x m :: "32 word"
  assumes "x AND NOT m = 0"
  shows "x AND m = x"
proof -
  have "x = x AND (m OR NOT m)" by simp
  also have "\<dots> = (x AND m) OR (x AND NOT m)" by (simp only: bit.conj_disj_distrib)
  finally show ?thesis using assms by simp
qed

lemma merge_in_mask:
  fixes old x m :: "32 word"
  assumes "x AND NOT m = 0"
  shows "((old AND NOT m) OR x) AND m = x"
proof -
  have "((old AND NOT m) OR x) AND m = (old AND (NOT m AND m)) OR (x AND m)"
    by (simp only: bit.conj_disj_distrib2 and.assoc)
  then show ?thesis using within_mask[OF assms] by simp
qed

lemma merge_out_of_mask:
  fixes old x m :: "32 word"
  assumes "x AND NOT m = 0"
  shows "((old AND NOT m) OR x) AND NOT m = old AND NOT m"
proof -
  have "((old AND NOT m) OR x) AND NOT m = (old AND (NOT m AND NOT m)) OR (x AND NOT m)"
    by (simp only: bit.conj_disj_distrib2 and.assoc)
  then show ?thesis using assms by simp
qed

text \<open>
  C6 (as the code has it). A mode with a bit outside the low 9 bits fails with EINVAL
  and leaves the device, so the stored mode, as it was. A valid mode on a read-only
  volume fails with EROFS and leaves the device as it was. A valid mode on a writable
  volume, for an object whose hardlink indirection resolves, is merged into the stored
  mode of the resolved object, whether or not the flush then succeeds: the low 9 bits
  become those of the argument and every other stored bit is kept (given that the
  engine's flush does not touch stored modes).
\<close>

theorem ycb_fchmod_modes:
  "(mode AND NOT 0x1FF \<noteq> 0 \<longrightarrow> ycb_fchmod flush dev loc mode = (Inl EINVAL, dev))
   \<and> (mode AND NOT 0x1FF = 0 \<and> read_only dev \<longrightarrow>
        ycb_fchmod flush dev loc mode = (Inl EROFS, dev))
   \<and> (mode AND NOT 0x1FF = 0 \<and> \<not> read_only dev
        \<and> yaffs_get_equivalent_obj dev loc = Some obj
        \<and> (\<forall>d ob a b x. yst_mode (objs (snd (flush d ob a b)) x) = yst_mode (objs d x)) \<longrightarrow>
        (let stored = yst_mode (objs (snd (ycb_fchmod flush dev loc mode)) obj)
         in stored = (yst_mode (objs dev obj) AND NOT 0x1FF) OR mode
            \<and> stored AND 0x1FF = mode
            \<and> stored AND NOT 0x1FF = yst_mode (objs dev obj) AND NOT 0x1FF))"
proof (intro conjI impI)
  assume "mode AND NOT 0x1FF \<noteq> 0"
  then show "ycb_fchmod flush dev loc mode = (Inl EINVAL, dev)"
    by (simp add: ycb_fchmod_def)
next
  assume "mode AND NOT 0x1FF = 0 \<and> read_only dev"
  then show "ycb_fchmod flush dev loc mode = (Inl EROFS, dev)"
    by (simp add: ycb_fchmod_def)
next
  assume h: "mode AND NOT 0x1FF = 0 \<and> \<not> read_only dev
        \<and> yaffs_get_equivalent_obj dev loc = Some obj
        \<and> (\<forall>d ob a b x. yst_mode (objs (snd (flush d ob a b)) x) = yst_mode (objs d x))"
  define dev1 where "dev1 = dev\<lparr>objs := (objs dev)
                           (obj := (objs dev obj)
                              \<lparr>yst_mode := (yst_mode (objs dev obj) AND NOT 0x1FF) OR mode,
                               dirty := True\<rparr>)\<rparr>"
  have "snd (ycb_fchmod flush dev loc mode) = snd (flush dev1 obj 0 0)"
    using h by (simp add: ycb_fchmod_def dev1_def Let_def split: prod.splits)
  then have "yst_mode (objs (snd (ycb_fchmod flush dev loc mode)) obj) = yst_mode (objs dev1 obj)"
    using h by simp
  then have stored: "yst_mode (objs (snd (ycb_fchmod flush dev loc mode)) obj)
      = (yst_mode (objs dev obj) AND NOT 0x1FF) OR mode"
    by (simp add: dev1_def)
  from h have valid: "mode AND NOT 0x1FF = 0" by simp
  show "let stored = yst_mode (objs (snd (ycb_fchmod flush dev loc mode)) obj)
         in stored = (yst_mode (objs dev obj) AND NOT 0x1FF) OR mode
            \<and> stored AND 0x1FF = mode
            \<and> stored AND NOT 0x1FF = yst_mode (objs dev obj) AND NOT 0x1FF"
    unfolding Let_def stored
    using merge_in_mask[OF valid] merge_out_of_mask[OF valid] by simp
qed

theorem ycb_fchmod_modes_witness:
  "ycb_fchmod example_flush example_dev 5 0x200 = (Inl EINVAL, example_dev)
   \<and> ycb_fchmod example_flush (example_dev\<lparr>read_only := True\<rparr>) 5 0x1A4
       = (Inl EROFS, example_dev\<lparr>read_only := True\<rparr>)
   \<and> yst_mode (objs example_dev 2) = 0x81ED
   \<and> yst_mode (objs (snd (ycb_fchmod example_flush example_dev 5 0x1A4)) 2) = 0x81A4"
  using ycb_fchmod_modes[of "0x200" example_flush example_dev 5 2]
    ycb_fchmod_modes[of "0x1A4" example_flush "example_dev\<lparr>read_only := True\<rparr>" 5 2]
    ycb_fchmod_modes[of "0x1A4" example_flush example_dev 5 2]
  by (simp add: example_flush_def example_dev_def example_objs_def example_obj_def
        yaffs_get_equivalent_obj_def Let_def)

text \<open>
  C6 as stated fails for a valid mode on a read-only volume: octal 0700 for \<^verbatim>\<open>motd\<close>
  is refused with EROFS and the stored mode stays octal 0100755, where the merge
  would give octal 0100700.
\<close>

theorem ycb_fchmod_valid_mode_counterexample:
  "(0x1C0 :: 32 word) AND NOT 0x1FF = 0
   \<and> ycb_fchmod example_flush (example_dev\<lparr>read_only := True\<rparr>) 2 0x1C0
       = (Inl EROFS, example_dev\<lparr>read_only := True\<rparr>)
   \<and> yst_mode (objs (example_dev\<lparr>read_only := True\<rparr>) 2) = 0x81ED
   \<and> (0x81ED AND NOT 0x1FF) OR 0x1C0 = (0x81C0 :: 32 word)"
  by (simp add: ycb_fchmod_def example_dev_def example_objs_def example_obj_def)

section \<open>Reading and writing a file\<close>

lemma ucast_as_sint:
  fixes off :: "64 word"
  shows "(ucast off :: 32 word) = word_of_int (sint off)"
  by (rule bit_word_eqI) (simp add: bit_simps min_def)

lemma sint_ucast_off:
  fixes off :: "64 word"
  assumes "- (2 ^ 31) \<le> sint off" "sint off < 2 ^ 31"
  shows "sint (ucast off :: 32 word) = sint off"
proof -
  have "sint (ucast off :: 32 word) = signed_take_bit 31 (sint off)"
    by (simp only: ucast_as_sint sint_sbintrunc') simp
  then show ?thesis using assms by (simp add: signed_take_bit_int_eq_self)
qed

lemma sint_diff32:
  fixes a b :: "32 word"
  assumes "- (2 ^ 31) \<le> sint a - sint b" "sint a - sint b < 2 ^ 31"
  shows "sint (a - b) = sint a - sint b"
  using assms by (simp add: sint_word_diff signed_take_bit_int_eq_self)

lemma uint_of_nonneg_sint:
  fixes a :: "32 word"
  assumes "0 \<le> sint a"
  shows "uint a = sint a"
proof -
  have "sint a < 2 ^ 32"
    using sint_lt[of a] by simp
  then have "take_bit 32 (sint a) = sint a"
    using assms by (simp add: take_bit_int_eq_self)
  then show ?thesis
    by (simp add: uint_sint)
qed

lemma ycb_file_read_count_eof:
  "sint ol \<le> sint off \<Longrightarrow> ycb_file_read_count ol off count = 0"
  by (simp add: ycb_file_read_count_def Let_def word_greater_zero_iff)

lemma ycb_file_read_count_value:
  assumes lo: "- (2 ^ 31) \<le> sint off"
    and hi: "sint ol - sint off < 2 ^ 31"
  shows "sint (ycb_file_read_count ol off count) = min (uint count) (max 0 (sint ol - sint off))"
proof (cases "sint ol \<le> sint off")
  case True
  then show ?thesis
    by (simp add: ycb_file_read_count_eof)
next
  case False
  have "sint ol < 2 ^ 31"
    using sint_lt[of ol] by simp
  with False have "sint off < 2 ^ 31"
    by simp
  with lo have tr: "sint (ucast off :: 32 word) = sint off"
    by (rule sint_ucast_off)
  have pos: "0 < sint ol - sint off"
    using False by simp
  have diff: "sint (ol - ucast off) = sint ol - sint off"
    using pos hi by (intro sint_diff32[THEN trans]) (simp_all add: tr)
  then have u: "uint (ol - ucast off) = sint ol - sint off"
    using pos by (simp add: uint_of_nonneg_sint)
  show ?thesis
  proof (cases "ol - ucast off < count")
    case True
    then have "uint (ol - ucast off) < uint count"
      by (simp add: word_less_def)
    with True False diff u show ?thesis
      by (simp add: ycb_file_read_count_def Let_def)
  next
    case no: False
    then have le: "uint count \<le> sint ol - sint off"
      using u by (simp add: word_less_def not_less)
    then have "uint count < 2 ^ 31"
      using hi by simp
    moreover have "- (2 ^ 31) \<le> uint count"
      by (rule order_trans[OF _ uint_ge_0]) simp
    ultimately have "signed_take_bit 31 (uint count) = uint count"
      by (intro signed_take_bit_int_eq_self)
    then have "sint count = uint count"
      by (simp add: sint_uint)
    with no False le pos show ?thesis
      by (simp add: ycb_file_read_count_def Let_def)
  qed
qed

text \<open>
  C7 (as the code has it). For a read of \<open>N\<close> bytes at offset \<open>off\<close> of a file of
  length \<open>L\<close>, where \<open>off\<close> is at least \<open>-2^31\<close> and \<open>L - off\<close> is below \<open>2^31\<close>
  (every offset from 0 on is such), the length passed to the engine's read is
  \<open>min N (max 0 (L - off))\<close>, also when read as the \<^verbatim>\<open>int\<close> the engine takes. At an
  offset of \<open>L\<close> or more the length is 0, and the result is what the engine gives for
  it.
\<close>

theorem ycb_file_read_clamps:
  assumes "- (2 ^ 31) \<le> sint (offset iop)"
    and "sint (get_len dev (node_access iop)) - sint (offset iop) < 2 ^ 31"
  shows "ycb_file_read get_len rd dev iop count
           = (case rd dev (node_access iop) (offset iop)
                     (word_of_int (min (uint count)
                        (max 0 (sint (get_len dev (node_access iop)) - sint (offset iop))))) of
                (nr, buffer) \<Rightarrow> if sint nr < 0 then Inl ENOSPC else Inr (nr, buffer))
         \<and> sint (ycb_file_read_count (get_len dev (node_access iop)) (offset iop) count)
           = min (uint count) (max 0 (sint (get_len dev (node_access iop)) - sint (offset iop)))
         \<and> (sint (get_len dev (node_access iop)) \<le> sint (offset iop) \<longrightarrow>
              ycb_file_read_count (get_len dev (node_access iop)) (offset iop) count = 0)"
proof -
  let ?n = "ycb_file_read_count (get_len dev (node_access iop)) (offset iop) count"
  have v: "sint ?n = min (uint count) (max 0 (sint (get_len dev (node_access iop)) - sint (offset iop)))"
    using assms by (rule ycb_file_read_count_value)
  have "?n = word_of_int (sint ?n)"
    by simp
  then have w: "?n = word_of_int (min (uint count)
                        (max 0 (sint (get_len dev (node_access iop)) - sint (offset iop))))"
    by (simp only: v)
  have "ycb_file_read get_len rd dev iop count
           = (case rd dev (node_access iop) (offset iop) ?n of
                (nr, buffer) \<Rightarrow> if sint nr < 0 then Inl ENOSPC else Inr (nr, buffer))"
    by (simp add: ycb_file_read_def Let_def)
  with w v show ?thesis
    by (simp add: ycb_file_read_count_eof)
qed

theorem ycb_file_read_clamps_witness:
  "ycb_file_read example_length example_rd example_dev (example_iop\<lparr>offset := 3\<rparr>) 10
     = Inr (2, replicate 2 0)
   \<and> ycb_file_read example_length example_rd example_dev (example_iop\<lparr>offset := 5\<rparr>) 1
     = Inr (0, [])"
  using ycb_file_read_clamps[of "example_iop\<lparr>offset := 3\<rparr>" example_length example_dev example_rd 10]
    ycb_file_read_clamps[of "example_iop\<lparr>offset := 5\<rparr>" example_length example_dev example_rd 1]
  by (simp add: example_length_def example_rd_def example_iop_def)

text \<open>
  C7 as stated fails at an offset that does not fit an \<^verbatim>\<open>int\<close>: a seek to
  \<open>-2^32\<close> is accepted, and the read of 10 bytes of the 5-byte file there asks the
  engine for 5 bytes, where \<open>min 10 (max 0 (5 + 2^32))\<close> is 10.
\<close>

theorem ycb_file_read_negative_offset_counterexample:
  "ycb_file_lseek example_length example_dev example_iop (- 4294967296) SEEK_SET
     = Inr (- 4294967296, example_iop\<lparr>offset := - 4294967296\<rparr>)
   \<and> sint (offset (example_iop\<lparr>offset := - 4294967296\<rparr>)) = - 4294967296
   \<and> sint (example_length example_dev 2) = 5
   \<and> ycb_file_read example_length example_rd example_dev
        (example_iop\<lparr>offset := - 4294967296\<rparr>) 10 = Inr (5, replicate 5 0)
   \<and> min (uint (10 :: 32 word)) (max 0 (5 - (- 4294967296))) = 10"
  by (simp add: ycb_file_lseek_def ycb_file_read_def ycb_file_read_count_def example_length_def
        example_rd_def example_iop_def SEEK_SET_def Let_def)

text \<open>
  C9. When the engine's read reports a negative count for the request the handler
  makes, the read fails with ENOSPC, not EIO; when the engine's write, reached on a
  writable volume, reports a negative count, the write fails with ENOSPC, not EIO.
  Nothing else about the engine enters.
\<close>

theorem ycb_file_io_failure_is_ENOSPC:
  "(sint (fst (rd dev (node_access iop) (offset iop)
                (ycb_file_read_count (get_len dev (node_access iop)) (offset iop) count))) < 0
      \<longrightarrow> ycb_file_read get_len rd dev iop count = Inl ENOSPC
          \<and> ycb_file_read get_len rd dev iop count \<noteq> Inl EIO)
   \<and> (\<not> read_only dev
       \<and> sint (fst (wr dev (node_access iop) buffer (offset iop) count 0)) < 0
      \<longrightarrow> fst (ycb_file_write wr dev iop buffer count) = Inl ENOSPC
          \<and> fst (ycb_file_write wr dev iop buffer count) \<noteq> Inl EIO)"
  by (simp add: ycb_file_read_def ycb_file_write_def Let_def split: prod.splits)

theorem ycb_file_io_failure_is_ENOSPC_witness:
  "ycb_file_read example_length failing_rd example_dev example_iop 4 = Inl ENOSPC
   \<and> fst (ycb_file_write failing_wr example_dev example_iop [1, 2, 3] 4) = Inl ENOSPC"
  using ycb_file_io_failure_is_ENOSPC[of failing_rd example_dev example_iop example_length 4
      failing_wr "[1, 2, 3]"]
  by (simp add: failing_rd_def failing_wr_def example_dev_def)

section \<open>Metadata\<close>

lemma sdiv_nonneg: "0 \<le> a \<Longrightarrow> 0 < b \<Longrightarrow> (a::int) sdiv b = a div b"
  by (simp add: signed_divide_int_def sgn_if)

lemma round_up_div:
  fixes a b :: int
  assumes "0 < b"
  shows "(a + b - 1) div b = - (- a div b)"
proof (cases "a mod b = 0")
  case True
  have "a + b - 1 = b * (a div b) + (b - 1)"
    using True by (simp add: algebra_simps) (metis True add.right_neutral mult.commute mult_div_mod_eq)
  then have "(a + b - 1) div b = a div b"
    using assms by (intro int_div_pos_eq[where r = "b - 1"]) simp_all
  then show ?thesis using True assms by (simp add: zdiv_zminus1_eq_if)
next
  case False
  have "0 \<le> a mod b"
    using assms by (rule pos_mod_sign)
  with False have r: "0 < a mod b" "a mod b < b"
    using assms by (linarith, simp)
  have "a + b - 1 = b * (a div b + 1) + (a mod b - 1)"
    by (simp add: algebra_simps)
  then have "(a + b - 1) div b = a div b + 1"
    using r by (intro int_div_pos_eq[where r = "a mod b - 1"]) simp_all
  then show ?thesis using False assms by (simp add: zdiv_zminus1_eq_if)
qed

lemma ceil_blocks: "0 \<le> a \<Longrightarrow> 0 < b \<Longrightarrow> ((a::int) + b - 1) sdiv b = \<lceil>real_of_int a / real_of_int b\<rceil>"
  by (simp add: sdiv_nonneg round_up_div ceiling_divide_eq_div)

lemma type_bits_in_mask:
  "S_IFDIR AND NOT S_IFMT = 0" "S_IFLNK AND NOT S_IFMT = 0" "S_IFREG AND NOT S_IFMT = 0"
  by (simp_all add: S_IFMT_def S_IFDIR_def S_IFLNK_def S_IFREG_def)

lemma type_bits_overlay:
  fixes m :: "32 word"
  shows "((m AND NOT S_IFMT) OR S_IFDIR) AND S_IFMT = S_IFDIR"
    and "((m AND NOT S_IFMT) OR S_IFLNK) AND S_IFMT = S_IFLNK"
    and "((m AND NOT S_IFMT) OR S_IFREG) AND S_IFMT = S_IFREG"
    and "(m AND NOT S_IFMT) AND S_IFMT = 0"
  by (simp_all only: merge_in_mask[OF type_bits_in_mask(1)] merge_in_mask[OF type_bits_in_mask(2)]
        merge_in_mask[OF type_bits_in_mask(3)]) (simp add: and.assoc)

lemma type_bits_frame:
  fixes m :: "32 word"
  shows "((m AND NOT S_IFMT) OR S_IFDIR) AND NOT S_IFMT = m AND NOT S_IFMT"
    and "((m AND NOT S_IFMT) OR S_IFLNK) AND NOT S_IFMT = m AND NOT S_IFMT"
    and "((m AND NOT S_IFMT) OR S_IFREG) AND NOT S_IFMT = m AND NOT S_IFMT"
    and "(m AND NOT S_IFMT) AND NOT S_IFMT = m AND NOT S_IFMT"
  by (simp_all only: merge_out_of_mask[OF type_bits_in_mask(1)]
        merge_out_of_mask[OF type_bits_in_mask(2)] merge_out_of_mask[OF type_bits_in_mask(3)])
     (simp add: and.assoc)

text \<open>
  C8. For an object whose hardlink indirection resolves, on a device with a positive
  chunk size and with a length that is not negative, \<^verbatim>\<open>stat\<close> succeeds and reports:
  the inode is the object id; the mode is the stored mode outside the file-type bits,
  and the file-type bits are those of the variant (none for a variant that is neither
  Directory, Symlink nor File); the size is the engine's length; the block size is the
  device's chunk size; the block count is the size divided by the block size, rounded
  up; the three timestamps are the stored ones.
\<close>

theorem ycb_fstat_reports:
  assumes "yaffs_get_equivalent_obj dev loc = Some obj"
    and "0 < data_bytes_per_chunk dev"
    and "0 \<le> sint (get_len dev obj)"
  shows "\<exists>buf. ycb_fstat get_len get_links dev loc = Inr buf
           \<and> st_ino buf = obj_id (objs dev obj)
           \<and> st_mode buf AND NOT S_IFMT = yst_mode (objs dev obj) AND NOT S_IFMT
           \<and> st_mode buf AND S_IFMT =
               (case variant_type (objs dev obj) of
                  YAFFS_OBJECT_TYPE_DIRECTORY \<Rightarrow> S_IFDIR
                | YAFFS_OBJECT_TYPE_SYMLINK \<Rightarrow> S_IFLNK
                | YAFFS_OBJECT_TYPE_FILE \<Rightarrow> S_IFREG
                | _ \<Rightarrow> 0)
           \<and> st_size buf = sint (get_len dev obj)
           \<and> st_blksize buf = data_bytes_per_chunk dev
           \<and> st_blocks buf = \<lceil>real_of_int (st_size buf) / real_of_int (st_blksize buf)\<rceil>
           \<and> st_atime buf = yst_atime (objs dev obj)
           \<and> st_ctime buf = yst_ctime (objs dev obj)
           \<and> st_mtime buf = yst_mtime (objs dev obj)"
proof -
  have blocks: "(sint (get_len dev obj) + data_bytes_per_chunk dev - 1) sdiv data_bytes_per_chunk dev
      = \<lceil>real_of_int (sint (get_len dev obj)) / real_of_int (data_bytes_per_chunk dev)\<rceil>"
    using assms(3,2) by (rule ceil_blocks)
  show ?thesis
    using assms(1,2) blocks
    by (cases "variant_type (objs dev obj)")
       (simp_all add: ycb_fstat_def Let_def type_bits_overlay type_bits_frame)
qed

theorem ycb_fstat_reports_witness:
  "ycb_fstat example_length example_link_count example_dev 5
     = Inr \<lparr>st_ino = 258, st_mode = 0x81ED, st_nlink = 1, st_uid = 0, st_gid = 0, st_rdev = 0,
            st_size = 5, st_blksize = 512, st_blocks = 1,
            st_atime = 10, st_ctime = 20, st_mtime = 30\<rparr>
   \<and> yst_mode (objs example_dev 1) = 0x81ED
   \<and> (\<exists>buf. ycb_fstat example_length example_link_count example_dev 1 = Inr buf
          \<and> st_ino buf = 257 \<and> st_mode buf = 0x41ED \<and> st_blocks buf = 1)"
  using ycb_fstat_reports[of example_dev 5 2 example_length example_link_count]
    ycb_fstat_reports[of example_dev 1 1 example_length example_link_count]
  by (simp add: ycb_fstat_def example_length_def example_link_count_def example_dev_def
        example_objs_def example_obj_def yaffs_get_equivalent_obj_def Let_def
        S_IFMT_def S_IFDIR_def S_IFLNK_def S_IFREG_def)

section \<open>Reading a directory\<close>

text \<open>
  C10. A directory read with a buffer smaller than one directory entry returns 0
  bytes and no entry and keeps the handle's offset; every read that follows, with
  whatever buffer, gives what it would have given without the short read.
\<close>

theorem ycb_dir_read_small_buffer:
  assumes "unat count < dirent_size"
  shows "\<exists>iop'. ycb_dir_read dirent_size dev iop count = Inr (0, [], iop')
           \<and> offset iop' = offset iop
           \<and> node_access iop' = node_access iop
           \<and> (\<forall>count'. ycb_dir_read dirent_size dev iop' count'
                          = ycb_dir_read dirent_size dev iop count')"
proof -
  define start where "start = (if offset iop = 0
                   then (case children (objs dev (node_access iop)) of [] \<Rightarrow> None | c # _ \<Rightarrow> Some c)
                   else data1 iop)"
  define iop' where "iop' = iop\<lparr>data1 := start\<rparr>"
  have none: "unat count div dirent_size = 0"
    using assms by simp
  have "ycb_dir_read dirent_size dev iop count = Inr (0, [], iop')"
    by (simp add: ycb_dir_read_def Let_def none start_def iop'_def)
  moreover have "ycb_dir_read dirent_size dev iop' count' = ycb_dir_read dirent_size dev iop count'"
    for count'
    by (cases "offset iop = 0")
       (simp_all add: ycb_dir_read_def Let_def start_def iop'_def split: sum.splits prod.splits)
  ultimately show ?thesis
    by (intro exI[of _ iop']) (simp add: iop'_def)
qed

theorem ycb_dir_read_small_buffer_witness:
  "\<exists>iop'. ycb_dir_read 272 example_dev example_dir_iop 100 = Inr (0, [], iop')
      \<and> offset iop' = 544
      \<and> ycb_dir_read 272 example_dev iop' 600
          = Inr (544,
               [\<lparr>d_ino = 259, d_off = 0, d_reclen = 272, d_namlen = 3, d_name = ''cfg''\<rparr>,
                \<lparr>d_ino = 258, d_off = 0, d_reclen = 272, d_namlen = 2, d_name = ''hl''\<rparr>],
               \<lparr>node_access = 0, offset = 1088, data1 = Some 6\<rparr>)"
proof -
  have later: "ycb_dir_read 272 example_dev example_dir_iop 600
          = Inr (544,
               [\<lparr>d_ino = 259, d_off = 0, d_reclen = 272, d_namlen = 3, d_name = ''cfg''\<rparr>,
                \<lparr>d_ino = 258, d_off = 0, d_reclen = 272, d_namlen = 2, d_name = ''hl''\<rparr>],
               \<lparr>node_access = 0, offset = 1088, data1 = Some 6\<rparr>)"
    by code_simp
  have "offset example_dir_iop = 544"
    by (simp add: example_dir_iop_def)
  with ycb_dir_read_small_buffer[of 100 272 example_dev example_dir_iop] later
  show ?thesis
    by auto
qed

end
